theory Spec2Isabelle
  imports Main
begin

section \<open>Python primitives used by the merge builder\<close>

text \<open>
  The exceptions the modelled code can raise.  Both failures of
  \<^verbatim>\<open>MergeIntoWriter.generate\<close> are a \<^verbatim>\<open>ValueError\<close>; they differ in
  their message, which is kept.  \<^verbatim>\<open>TypeError\<close> is what \<^verbatim>\<open>zip\<close> raises on
  \<^verbatim>\<open>None\<close>.
\<close>

datatype error = ValueError string | TypeError

text \<open>\<^verbatim>\<open>sep.join(xs)\<close>: the elements of \<open>xs\<close> with \<open>sep\<close> between neighbours.\<close>

fun join :: "string \<Rightarrow> string list \<Rightarrow> string" where
  "join sep [] = []"
| "join sep [x] = x"
| "join sep (x # y # ys) = x @ sep @ join sep (y # ys)"

text \<open>Truthiness of a \<^verbatim>\<open>str\<close> and of an \<^verbatim>\<open>Optional[str]\<close>.\<close>

definition truthy :: "'a list \<Rightarrow> bool" where
  "truthy s = (s \<noteq> [])"

fun truthy_opt :: "'a list option \<Rightarrow> bool" where
  "truthy_opt None = False"
| "truthy_opt (Some s) = truthy s"

text \<open>How an f-string formats an \<^verbatim>\<open>Optional[str]\<close>.\<close>

fun format_opt :: "string option \<Rightarrow> string" where
  "format_opt None = ''None''"
| "format_opt (Some s) = s"

definition newline :: string where
  "newline = [CHR 0x0A]"

section \<open>Clause generators (\<^verbatim>\<open>pychan/sql/utils.py\<close>, class \<^verbatim>\<open>MergeUtils\<close>)\<close>

definition genIdCondition :: "string list \<Rightarrow> string" where
  "genIdCondition idColsName =
     join '' AND ''
       (map (\<lambda>idColName. ''target.'' @ idColName @ '' = source.'' @ idColName) idColsName)"

text \<open>
  \<^verbatim>\<open>zip\<close> raises on an argument that is \<^verbatim>\<open>None\<close>; on two lists it stops at
  the end of the shorter one, as \<^const>\<open>zip\<close> does.
\<close>

fun genPartitionCondition :: "string list option \<Rightarrow> string list option \<Rightarrow> error + string" where
  "genPartitionCondition (Some partitionColsName) (Some partitionValues) =
     Inr (join '' AND ''
       (map (\<lambda>(partitionColName, partitionValue).
               ''target.'' @ partitionColName @ '' IN ('' @ partitionValue @ '')'')
            (zip partitionColsName partitionValues)))"
| "genPartitionCondition _ _ = Inl TypeError"

definition genCondition ::
  "string list \<Rightarrow> string list option \<Rightarrow> string list option \<Rightarrow> error + string" where
  "genCondition idColsName partitionColsName partitionValues =
     (let idCondition = genIdCondition idColsName in
      if truthy_opt partitionColsName \<and> truthy_opt partitionValues then
        (case genPartitionCondition partitionColsName partitionValues of
           Inl e \<Rightarrow> Inl e
         | Inr partitionCondition \<Rightarrow> Inr (idCondition @ '' AND '' @ partitionCondition))
      else Inr idCondition)"

text \<open>
  \<^verbatim>\<open>ignoreColsName or set()\<close>: an absent or empty collection is replaced by the
  empty set; only membership is used afterwards.
\<close>

definition genSet :: "string list \<Rightarrow> string set option \<Rightarrow> string" where
  "genSet colsName ignoreColsName =
     (let ignoreColsName' =
            (case ignoreColsName of None \<Rightarrow> {} | Some s \<Rightarrow> if s = {} then {} else s)
      in join '', ''
           (map (\<lambda>colName. colName @ '' = source.'' @ colName)
                (filter (\<lambda>colName. colName \<notin> ignoreColsName') colsName)))"

text \<open>
  The match condition as the specification words it: every key but the last
  contributes its equality followed by the separator, the last key its
  equality alone; no keys give the empty string.
\<close>

definition matchCondition_spec :: "string list \<Rightarrow> string" where
  "matchCondition_spec ks =
     (if ks = [] then []
      else concat (map (\<lambda>k. ''target.'' @ k @ '' = source.'' @ k @ '' AND '') (butlast ks))
           @ ''target.'' @ last ks @ '' = source.'' @ last ks)"

section \<open>Merge statement builder (\<^verbatim>\<open>pychan/sql/merge.py\<close>, class \<^verbatim>\<open>MergeIntoWriter\<close>)\<close>

text \<open>
  The instance fields set by \<^verbatim>\<open>__init__\<close> (the leading underscore of the Python
  names is dropped).  Methods that mutate \<^verbatim>\<open>self\<close> take the writer and return
  the updated writer.
\<close>

record MergeIntoWriter =
  targetAs :: string
  sourceAs :: string
  tblName :: string
  viewName :: "string option"
  condition :: "string option"
  matchedActions :: "string list"
  notMatchedActions :: "string list"
  notMatchedBySourceActions :: "string list"

definition MergeIntoWriter_init :: "string \<Rightarrow> MergeIntoWriter" where
  "MergeIntoWriter_init tblName' =
     \<lparr>targetAs = ''target'', sourceAs = ''source'', tblName = tblName',
      viewName = None, condition = None,
      matchedActions = [], notMatchedActions = [], notMatchedBySourceActions = []\<rparr>"

definition MergeIntoWriter_using :: "MergeIntoWriter \<Rightarrow> string \<Rightarrow> MergeIntoWriter" where
  "MergeIntoWriter_using self viewName' = self\<lparr>viewName := Some viewName'\<rparr>"

definition MergeIntoWriter_on :: "MergeIntoWriter \<Rightarrow> string \<Rightarrow> MergeIntoWriter" where
  "MergeIntoWriter_on self condition' = self\<lparr>condition := Some condition'\<rparr>"

definition clearActions :: "MergeIntoWriter \<Rightarrow> MergeIntoWriter" where
  "clearActions self =
     self\<lparr>matchedActions := [], notMatchedActions := [], notMatchedBySourceActions := []\<rparr>"

text \<open>\<^verbatim>\<open>__name__\<close> of the module, which both error messages start with.\<close>

definition name_of_module :: string where
  "name_of_module = ''pychan.sql.merge''"

definition MissingConfigurationError :: error where
  "MissingConfigurationError =
     ValueError (name_of_module @ ''.generate(): Missing required parameters.'')"

definition NoActionsError :: error where
  "NoActionsError = ValueError (name_of_module @ ''.generate(): No merge actions provided.'')"

text \<open>
  \<^verbatim>\<open>generate\<close> returns the statement or raises; in both cases the writer it
  leaves behind is returned as the second component.  Nothing is mutated
  before either \<^verbatim>\<open>raise\<close>.
\<close>

definition generate :: "MergeIntoWriter \<Rightarrow> (error + string) \<times> MergeIntoWriter" where
  "generate self =
     (if \<not> (truthy (tblName self) \<and> truthy_opt (viewName self) \<and> truthy_opt (condition self))
      then (Inl MissingConfigurationError, self)
      else if \<not> (truthy (matchedActions self) \<or> truthy (notMatchedActions self)
                   \<or> truthy (notMatchedBySourceActions self))
      then (Inl NoActionsError, self)
      else
        (let sql =
               [''MERGE INTO '' @ tblName self @ '' AS '' @ targetAs self,
                ''USING '' @ format_opt (viewName self) @ '' AS '' @ sourceAs self,
                ''ON '' @ format_opt (condition self)]
               @ matchedActions self
               @ notMatchedActions self
               @ notMatchedBySourceActions self
         in (Inr (join newline sql), clearActions self)))"

subsection \<open>Branch scopes\<close>

text \<open>
  A scope object keeps the optional predicate it was opened with and a
  reference to the writer that opened it.  The reference is what the action
  methods mutate and return, so here they take the writer as it is when the
  action is called.  Opening a scope returns the scope and the writer, which
  the constructor of the scope does not touch.
\<close>

datatype WhenMatched = WhenMatched "string option"

datatype WhenNotMatched = WhenNotMatched "string option"

datatype WhenNotMatchedBySource = WhenNotMatchedBySource "string option"

definition whenMatched ::
  "MergeIntoWriter \<Rightarrow> string option \<Rightarrow> WhenMatched \<times> MergeIntoWriter" where
  "whenMatched self condition' = (WhenMatched condition', self)"

definition whenNotMatched ::
  "MergeIntoWriter \<Rightarrow> string option \<Rightarrow> WhenNotMatched \<times> MergeIntoWriter" where
  "whenNotMatched self condition' = (WhenNotMatched condition', self)"

definition whenNotMatchedBySource ::
  "MergeIntoWriter \<Rightarrow> string option \<Rightarrow> WhenNotMatchedBySource \<times> MergeIntoWriter" where
  "whenNotMatchedBySource self condition' = (WhenNotMatchedBySource condition', self)"

fun WhenMatched_genWhen :: "WhenMatched \<Rightarrow> string" where
  "WhenMatched_genWhen (WhenMatched c) =
     (if truthy_opt c then ''WHEN MATCHED AND '' @ format_opt c else ''WHEN MATCHED'')"

definition WhenMatched_updateAll :: "WhenMatched \<Rightarrow> MergeIntoWriter \<Rightarrow> MergeIntoWriter" where
  "WhenMatched_updateAll self writer =
     writer\<lparr>matchedActions :=
       matchedActions writer @ [WhenMatched_genWhen self @ '' THEN UPDATE SET *'']\<rparr>"

definition WhenMatched_updateExpr ::
  "WhenMatched \<Rightarrow> string \<Rightarrow> MergeIntoWriter \<Rightarrow> MergeIntoWriter" where
  "WhenMatched_updateExpr self set' writer =
     writer\<lparr>matchedActions :=
       matchedActions writer @ [WhenMatched_genWhen self @ '' THEN UPDATE SET '' @ set']\<rparr>"

definition WhenMatched_delete :: "WhenMatched \<Rightarrow> MergeIntoWriter \<Rightarrow> MergeIntoWriter" where
  "WhenMatched_delete self writer =
     writer\<lparr>matchedActions :=
       matchedActions writer @ [WhenMatched_genWhen self @ '' THEN DELETE'']\<rparr>"

fun WhenNotMatched_genWhen :: "WhenNotMatched \<Rightarrow> string" where
  "WhenNotMatched_genWhen (WhenNotMatched c) =
     (if truthy_opt c then ''WHEN NOT MATCHED AND '' @ format_opt c else ''WHEN NOT MATCHED'')"

definition WhenNotMatched_insertAll ::
  "WhenNotMatched \<Rightarrow> MergeIntoWriter \<Rightarrow> MergeIntoWriter" where
  "WhenNotMatched_insertAll self writer =
     writer\<lparr>notMatchedActions :=
       notMatchedActions writer @ [WhenNotMatched_genWhen self @ '' THEN INSERT *'']\<rparr>"

definition WhenNotMatched_insertExpr ::
  "WhenNotMatched \<Rightarrow> string \<Rightarrow> MergeIntoWriter \<Rightarrow> MergeIntoWriter" where
  "WhenNotMatched_insertExpr self values' writer =
     writer\<lparr>notMatchedActions :=
       notMatchedActions writer @ [WhenNotMatched_genWhen self @ '' THEN INSERT '' @ values']\<rparr>"

fun WhenNotMatchedBySource_genWhen :: "WhenNotMatchedBySource \<Rightarrow> string" where
  "WhenNotMatchedBySource_genWhen (WhenNotMatchedBySource c) =
     (if truthy_opt c then ''WHEN NOT MATCHED BY SOURCE AND '' @ format_opt c
      else ''WHEN NOT MATCHED BY SOURCE'')"

definition WhenNotMatchedBySource_updateAll ::
  "WhenNotMatchedBySource \<Rightarrow> MergeIntoWriter \<Rightarrow> MergeIntoWriter" where
  "WhenNotMatchedBySource_updateAll self writer =
     writer\<lparr>notMatchedBySourceActions :=
       notMatchedBySourceActions writer
       @ [WhenNotMatchedBySource_genWhen self @ '' THEN UPDATE SET *'']\<rparr>"

definition WhenNotMatchedBySource_updateExpr ::
  "WhenNotMatchedBySource \<Rightarrow> string \<Rightarrow> MergeIntoWriter \<Rightarrow> MergeIntoWriter" where
  "WhenNotMatchedBySource_updateExpr self set' writer =
     writer\<lparr>notMatchedBySourceActions :=
       notMatchedBySourceActions writer
       @ [WhenNotMatchedBySource_genWhen self @ '' THEN UPDATE SET '' @ set']\<rparr>"

definition WhenNotMatchedBySource_delete ::
  "WhenNotMatchedBySource \<Rightarrow> MergeIntoWriter \<Rightarrow> MergeIntoWriter" where
  "WhenNotMatchedBySource_delete self writer =
     writer\<lparr>notMatchedBySourceActions :=
       notMatchedBySourceActions writer
       @ [WhenNotMatchedBySource_genWhen self @ '' THEN DELETE'']\<rparr>"

subsection \<open>Fluent calls\<close>

text \<open>
  One fluent branch call \<^verbatim>\<open>writer.whenX(condition).action(...)\<close>: a scope is
  opened on the writer and one of its action methods is called.  These eight
  rules are all the ways in which a caller can record a branch.
\<close>

inductive branch_call :: "MergeIntoWriter \<Rightarrow> MergeIntoWriter \<Rightarrow> bool" where
  matched_updateAll:
    "branch_call w (WhenMatched_updateAll (fst (whenMatched w c)) (snd (whenMatched w c)))"
| matched_updateExpr:
    "branch_call w (WhenMatched_updateExpr (fst (whenMatched w c)) e (snd (whenMatched w c)))"
| matched_delete:
    "branch_call w (WhenMatched_delete (fst (whenMatched w c)) (snd (whenMatched w c)))"
| notMatched_insertAll:
    "branch_call w
       (WhenNotMatched_insertAll (fst (whenNotMatched w c)) (snd (whenNotMatched w c)))"
| notMatched_insertExpr:
    "branch_call w
       (WhenNotMatched_insertExpr (fst (whenNotMatched w c)) e (snd (whenNotMatched w c)))"
| notMatchedBySource_updateAll:
    "branch_call w
       (WhenNotMatchedBySource_updateAll (fst (whenNotMatchedBySource w c))
          (snd (whenNotMatchedBySource w c)))"
| notMatchedBySource_updateExpr:
    "branch_call w
       (WhenNotMatchedBySource_updateExpr (fst (whenNotMatchedBySource w c)) e
          (snd (whenNotMatchedBySource w c)))"
| notMatchedBySource_delete:
    "branch_call w
       (WhenNotMatchedBySource_delete (fst (whenNotMatchedBySource w c))
          (snd (whenNotMatchedBySource w c)))"

text \<open>
  The writer of the docstring of \<^verbatim>\<open>generate\<close>, before and after its two
  branch calls.
\<close>

definition doc_configured :: MergeIntoWriter where
  "doc_configured =
     MergeIntoWriter_on (MergeIntoWriter_using (MergeIntoWriter_init ''lh.Sales'') ''{df}'')
       ''target.id = source.id''"

definition doc_writer :: MergeIntoWriter where
  "doc_writer =
     (let (scope1, w1) = whenMatched doc_configured None;
          w2 = WhenMatched_updateAll scope1 w1;
          (scope2, w3) = whenNotMatched w2 None
      in WhenNotMatched_insertAll scope2 w3)"

text \<open>
  A writer whose source relation is set to the empty string:
  \<^verbatim>\<open>MergeIntoWriter("t").using("").on("c").whenMatched().delete()\<close>.
\<close>

definition empty_source_writer :: MergeIntoWriter where
  "empty_source_writer =
     (let w0 = MergeIntoWriter_on (MergeIntoWriter_using (MergeIntoWriter_init ''t'') []) ''c'';
          (scope, w1) = whenMatched w0 None
      in WhenMatched_delete scope w1)"

subsection \<open>Frame conditions and reachable writers\<close>

text \<open>
  \<open>appended_matched w l w'\<close>: \<open>w'\<close> is \<open>w\<close> with the line \<open>l\<close> added at the end
  of the matched actions and every other field as it was; likewise for the
  other two sequences.
\<close>

definition appended_matched :: "MergeIntoWriter \<Rightarrow> string \<Rightarrow> MergeIntoWriter \<Rightarrow> bool" where
  "appended_matched w l w' =
     (matchedActions w' = matchedActions w @ [l]
      \<and> notMatchedActions w' = notMatchedActions w
      \<and> notMatchedBySourceActions w' = notMatchedBySourceActions w
      \<and> tblName w' = tblName w \<and> viewName w' = viewName w \<and> condition w' = condition w
      \<and> targetAs w' = targetAs w \<and> sourceAs w' = sourceAs w)"

definition appended_notMatched :: "MergeIntoWriter \<Rightarrow> string \<Rightarrow> MergeIntoWriter \<Rightarrow> bool" where
  "appended_notMatched w l w' =
     (matchedActions w' = matchedActions w
      \<and> notMatchedActions w' = notMatchedActions w @ [l]
      \<and> notMatchedBySourceActions w' = notMatchedBySourceActions w
      \<and> tblName w' = tblName w \<and> viewName w' = viewName w \<and> condition w' = condition w
      \<and> targetAs w' = targetAs w \<and> sourceAs w' = sourceAs w)"

definition appended_notMatchedBySource ::
  "MergeIntoWriter \<Rightarrow> string \<Rightarrow> MergeIntoWriter \<Rightarrow> bool" where
  "appended_notMatchedBySource w l w' =
     (matchedActions w' = matchedActions w
      \<and> notMatchedActions w' = notMatchedActions w
      \<and> notMatchedBySourceActions w' = notMatchedBySourceActions w @ [l]
      \<and> tblName w' = tblName w \<and> viewName w' = viewName w \<and> condition w' = condition w
      \<and> targetAs w' = targetAs w \<and> sourceAs w' = sourceAs w)"

text \<open>The writers a caller can obtain through the public methods.\<close>

inductive reachable :: "MergeIntoWriter \<Rightarrow> bool" where
  r_init: "reachable (MergeIntoWriter_init t)"
| r_using: "reachable w \<Longrightarrow> reachable (MergeIntoWriter_using w v)"
| r_on: "reachable w \<Longrightarrow> reachable (MergeIntoWriter_on w c)"
| r_branch: "reachable w \<Longrightarrow> branch_call w w' \<Longrightarrow> reachable w'"
| r_generate: "reachable w \<Longrightarrow> reachable (snd (generate w))"

section \<open>Properties of the clause generators\<close>

lemma join_map_butlast_last:
  "xs \<noteq> [] \<Longrightarrow> join sep (map f xs) = concat (map (\<lambda>x. f x @ sep) (butlast xs)) @ f (last xs)"
proof (induction xs)
  case Nil
  then show ?case by simp
next
  case (Cons x xs)
  show ?case
  proof (cases xs)
    case Nil
    then show ?thesis by simp
  next
    case (Cons y ys)
    with Cons.IH show ?thesis by simp
  qed
qed

text \<open>
  C5.  For every sequence of key columns \<open>[k1, ..., kn]\<close> the match condition is
  \<open>target.k1 = source.k1 AND ... AND target.kn = source.kn\<close>, in input order,
  and the empty sequence gives the empty string.
\<close>

theorem genIdCondition_matchCondition:
  "genIdCondition ks = matchCondition_spec ks \<and> genIdCondition [] = []"
proof -
  have "genIdCondition ks = matchCondition_spec ks"
  proof (cases "ks = []")
    case True
    then show ?thesis by (simp add: genIdCondition_def matchCondition_spec_def)
  next
    case False
    then show ?thesis
      using join_map_butlast_last [where xs = ks and sep = "'' AND ''"
          and f = "\<lambda>k. ''target.'' @ k @ '' = source.'' @ k"]
      by (simp add: genIdCondition_def matchCondition_spec_def)
  qed
  moreover have "genIdCondition [] = []" by (simp add: genIdCondition_def)
  ultimately show ?thesis by simp
qed

text \<open>The example of the docstring of \<^verbatim>\<open>_genIdCondition\<close>.\<close>

theorem genIdCondition_matchCondition_witness:
  "matchCondition_spec [''BELNR'', ''DOCLN'', ''RCLNT'', ''RLDNR'', ''RBUKRS'', ''GJAHR''] =
     ''target.BELNR = source.BELNR AND target.DOCLN = source.DOCLN AND '' @
     ''target.RCLNT = source.RCLNT AND target.RLDNR = source.RLDNR AND '' @
     ''target.RBUKRS = source.RBUKRS AND target.GJAHR = source.GJAHR''
   \<and> genIdCondition [''BELNR'', ''DOCLN'', ''RCLNT'', ''RLDNR'', ''RBUKRS'', ''GJAHR''] =
     ''target.BELNR = source.BELNR AND target.DOCLN = source.DOCLN AND '' @
     ''target.RCLNT = source.RCLNT AND target.RLDNR = source.RLDNR AND '' @
     ''target.RBUKRS = source.RBUKRS AND target.GJAHR = source.GJAHR''"
  using genIdCondition_matchCondition
          [of "[''BELNR'', ''DOCLN'', ''RCLNT'', ''RLDNR'', ''RBUKRS'', ''GJAHR'']"]
  by (simp add: matchCondition_spec_def)

text \<open>
  C6.  Without partition arguments the condition is the match condition.  With
  both partition arguments present and non-empty it is the match condition,
  then \<open>" AND "\<close>, then the partition condition of the two arguments.
\<close>

theorem genCondition_matchCondition:
  "genCondition ks None None = Inr (genIdCondition ks)
   \<and> (pc \<noteq> [] \<and> pv \<noteq> [] \<longrightarrow>
        (\<exists>p. genPartitionCondition (Some pc) (Some pv) = Inr p
           \<and> genCondition ks (Some pc) (Some pv) = Inr (genIdCondition ks @ '' AND '' @ p)))"
  by (simp add: genCondition_def truthy_def)

text \<open>The two examples of the docstring of \<^verbatim>\<open>genCondition\<close>.\<close>

theorem genCondition_matchCondition_witness:
  "genCondition [''BELNR'', ''DOCLN'', ''RCLNT'', ''RLDNR'', ''RBUKRS'', ''GJAHR'']
       (Some [''RBUKRS'', ''GJAHR''])
       (Some [CHR 0x27 # ''S030'' @ [CHR 0x27], CHR 0x27 # ''2025', '2024'' @ [CHR 0x27]]) =
     Inr (''target.BELNR = source.BELNR AND target.DOCLN = source.DOCLN AND '' @
          ''target.RCLNT = source.RCLNT AND target.RLDNR = source.RLDNR AND '' @
          ''target.RBUKRS = source.RBUKRS AND target.GJAHR = source.GJAHR AND '' @
          ''target.RBUKRS IN ('S030') AND target.GJAHR IN ('2025', '2024')'')
   \<and> genCondition [''BELNR'', ''DOCLN'', ''RCLNT'', ''RLDNR'', ''RBUKRS'', ''GJAHR''] None None =
     Inr (''target.BELNR = source.BELNR AND target.DOCLN = source.DOCLN AND '' @
          ''target.RCLNT = source.RCLNT AND target.RLDNR = source.RLDNR AND '' @
          ''target.RBUKRS = source.RBUKRS AND target.GJAHR = source.GJAHR'')"
  using genCondition_matchCondition
          [of "[''BELNR'', ''DOCLN'', ''RCLNT'', ''RLDNR'', ''RBUKRS'', ''GJAHR'']"
              "[''RBUKRS'', ''GJAHR'']"
              "[CHR 0x27 # ''S030'' @ [CHR 0x27], CHR 0x27 # ''2025', '2024'' @ [CHR 0x27]]"]
  by (simp add: genIdCondition_def)

lemma zip_eq_map_nth:
  "zip xs ys = map (\<lambda>i. (xs ! i, ys ! i)) [0..<min (length xs) (length ys)]"
  by (rule nth_equalityI) simp_all

text \<open>
  C7.  The partition condition pairs the columns and the value lists by
  position, up to the length of the shorter sequence, and joins one fragment
  \<open>target.<col> IN (<values>)\<close> per pair with \<open>" AND "\<close>; the values are
  inserted as they are.
\<close>

theorem genPartitionCondition_pairs:
  "genPartitionCondition (Some pc) (Some pv) =
     Inr (join '' AND ''
            (map (\<lambda>i. ''target.'' @ pc ! i @ '' IN ('' @ pv ! i @ '')'')
                 [0..<min (length pc) (length pv)]))"
  by (simp add: zip_eq_map_nth [of pc pv] comp_def)

text \<open>
  The example of the docstring of \<^verbatim>\<open>_genPartitionCondition\<close>, and a call with
  one column more than value lists.
\<close>

theorem genPartitionCondition_pairs_witness:
  "genPartitionCondition (Some [''RBUKRS'', ''GJAHR''])
       (Some [CHR 0x27 # ''S030'' @ [CHR 0x27], CHR 0x27 # ''2025', '2024'' @ [CHR 0x27]]) =
     Inr ''target.RBUKRS IN ('S030') AND target.GJAHR IN ('2025', '2024')''
   \<and> genPartitionCondition (Some [''RBUKRS'', ''GJAHR'', ''RCLNT'']) (Some [''1'', ''2'']) =
     Inr ''target.RBUKRS IN (1) AND target.GJAHR IN (2)''"
  using genPartitionCondition_pairs [of "[''RBUKRS'', ''GJAHR'']"
          "[CHR 0x27 # ''S030'' @ [CHR 0x27], CHR 0x27 # ''2025', '2024'' @ [CHR 0x27]]"]
        genPartitionCondition_pairs [of "[''RBUKRS'', ''GJAHR'', ''RCLNT'']" "[''1'', ''2'']"]
  by simp

text \<open>
  C8.  The set clause joins \<open><col> = source.<col>\<close> with \<open>", "\<close> for the columns
  that are not in the exclusion set, in their input order; without an
  exclusion argument every column is included.
\<close>

theorem genSet_excludes:
  "genSet cols (Some ex) =
     join '', '' (map (\<lambda>c. c @ '' = source.'' @ c) (filter (\<lambda>c. c \<notin> ex) cols))
   \<and> genSet cols None = join '', '' (map (\<lambda>c. c @ '' = source.'' @ c) cols)"
  by (simp add: genSet_def)

text \<open>
  The example of the docstring of \<^verbatim>\<open>genSet\<close>, an exclusion in the middle of
  the columns, and a call without exclusions.
\<close>

theorem genSet_excludes_witness:
  "genSet [''BELNR'', ''DOCLN'', ''RCLNT'', ''RLDNR'', ''RBUKRS'', ''GJAHR'',
           ''__created_timestamp'']
       (Some {''__created_timestamp''}) =
     ''BELNR = source.BELNR, DOCLN = source.DOCLN, RCLNT = source.RCLNT, '' @
     ''RLDNR = source.RLDNR, RBUKRS = source.RBUKRS, GJAHR = source.GJAHR''
   \<and> genSet [''BELNR'', ''DOCLN'', ''GJAHR''] (Some {''DOCLN'', ''X''}) =
     ''BELNR = source.BELNR, GJAHR = source.GJAHR''
   \<and> genSet [''BELNR'', ''DOCLN'', ''GJAHR''] None =
     ''BELNR = source.BELNR, DOCLN = source.DOCLN, GJAHR = source.GJAHR''"
  using genSet_excludes [of "[''BELNR'', ''DOCLN'', ''RCLNT'', ''RLDNR'', ''RBUKRS'', ''GJAHR'',
           ''__created_timestamp'']" "{''__created_timestamp''}"]
        genSet_excludes [of "[''BELNR'', ''DOCLN'', ''GJAHR'']" "{''DOCLN'', ''X''}"]
  by simp

section \<open>Properties of the merge statement builder\<close>

lemmas writer_ops =
  MergeIntoWriter_init_def MergeIntoWriter_using_def MergeIntoWriter_on_def clearActions_def
  whenMatched_def whenNotMatched_def whenNotMatchedBySource_def
  WhenMatched_updateAll_def WhenMatched_updateExpr_def WhenMatched_delete_def
  WhenNotMatched_insertAll_def WhenNotMatched_insertExpr_def
  WhenNotMatchedBySource_updateAll_def WhenNotMatchedBySource_updateExpr_def
  WhenNotMatchedBySource_delete_def

lemma errors_distinct: "NoActionsError \<noteq> MissingConfigurationError"
  by (simp add: NoActionsError_def MissingConfigurationError_def)

lemma truthy_opt_iff: "truthy_opt x = (\<exists>s. x = Some s \<and> s \<noteq> [])"
  by (cases x) (simp_all add: truthy_def)

lemma not_truthy_opt: "(\<not> truthy_opt x) = (x = None \<or> x = Some [])"
  by (cases x) (simp_all add: truthy_def)

subsection \<open>The three outcomes of \<^verbatim>\<open>generate\<close>\<close>

lemma generate_unconfigured:
  "tblName w = [] \<or> \<not> truthy_opt (viewName w) \<or> \<not> truthy_opt (condition w) \<Longrightarrow>
   generate w = (Inl MissingConfigurationError, w)"
  by (auto simp: generate_def truthy_def)

lemma generate_no_actions:
  "tblName w \<noteq> [] \<Longrightarrow> truthy_opt (viewName w) \<Longrightarrow> truthy_opt (condition w) \<Longrightarrow>
   matchedActions w = [] \<Longrightarrow> notMatchedActions w = [] \<Longrightarrow> notMatchedBySourceActions w = [] \<Longrightarrow>
   generate w = (Inl NoActionsError, w)"
  by (simp add: generate_def truthy_def)

lemma generate_ok:
  "tblName w \<noteq> [] \<Longrightarrow> viewName w = Some v \<Longrightarrow> v \<noteq> [] \<Longrightarrow> condition w = Some c \<Longrightarrow> c \<noteq> [] \<Longrightarrow>
   matchedActions w \<noteq> [] \<or> notMatchedActions w \<noteq> [] \<or> notMatchedBySourceActions w \<noteq> [] \<Longrightarrow>
   generate w =
     (Inr (join newline
        ([''MERGE INTO '' @ tblName w @ '' AS '' @ targetAs w,
          ''USING '' @ v @ '' AS '' @ sourceAs w,
          ''ON '' @ c]
         @ matchedActions w @ notMatchedActions w @ notMatchedBySourceActions w)),
      w\<lparr>matchedActions := [], notMatchedActions := [], notMatchedBySourceActions := []\<rparr>)"
  by (simp add: generate_def truthy_def clearActions_def Let_def)

lemma generate_Inr_cases:
  assumes "generate w = (Inr s, w')"
  shows "tblName w \<noteq> [] \<and> truthy_opt (viewName w) \<and> truthy_opt (condition w)
         \<and> w' = w\<lparr>matchedActions := [], notMatchedActions := [],
                   notMatchedBySourceActions := []\<rparr>"
  using assms by (auto simp: generate_def truthy_def clearActions_def Let_def split: if_splits)

subsection \<open>Branch calls and reachable writers\<close>

lemma branch_call_frame:
  "branch_call w w' \<Longrightarrow>
     targetAs w' = targetAs w \<and> sourceAs w' = sourceAs w \<and> tblName w' = tblName w
     \<and> viewName w' = viewName w \<and> condition w' = condition w"
  by (induction rule: branch_call.induct) (simp_all add: writer_ops)

lemma branch_call_appends:
  "branch_call w w' \<Longrightarrow>
     (\<exists>l. matchedActions w' = matchedActions w @ [l]
          \<and> notMatchedActions w' = notMatchedActions w
          \<and> notMatchedBySourceActions w' = notMatchedBySourceActions w)
   \<or> (\<exists>l. matchedActions w' = matchedActions w
          \<and> notMatchedActions w' = notMatchedActions w @ [l]
          \<and> notMatchedBySourceActions w' = notMatchedBySourceActions w)
   \<or> (\<exists>l. matchedActions w' = matchedActions w
          \<and> notMatchedActions w' = notMatchedActions w
          \<and> notMatchedBySourceActions w' = notMatchedBySourceActions w @ [l])"
  by (induction rule: branch_call.induct) (simp_all add: writer_ops)

lemma generate_aliases:
  "targetAs (snd (generate w)) = targetAs w \<and> sourceAs (snd (generate w)) = sourceAs w"
  by (simp add: generate_def clearActions_def Let_def)

text \<open>
  The two aliases are set by the constructor and written by no method: every
  writer a caller can hold has the aliases \<open>target\<close> and \<open>source\<close>.
\<close>

lemma reachable_aliases:
  "reachable w \<Longrightarrow> targetAs w = ''target'' \<and> sourceAs w = ''source''"
proof (induction rule: reachable.induct)
  case (r_init t)
  show ?case by (simp add: MergeIntoWriter_init_def)
next
  case (r_using w v)
  then show ?case by (simp add: MergeIntoWriter_using_def)
next
  case (r_on w c)
  then show ?case by (simp add: MergeIntoWriter_on_def)
next
  case (r_branch w w')
  then show ?case using branch_call_frame [of w w'] by simp
next
  case (r_generate w)
  then show ?case by (simp add: generate_aliases)
qed

lemma doc_writer_eq:
  "doc_writer =
     \<lparr>targetAs = ''target'', sourceAs = ''source'', tblName = ''lh.Sales'',
      viewName = Some ''{df}'', condition = Some ''target.id = source.id'',
      matchedActions = [''WHEN MATCHED THEN UPDATE SET *''],
      notMatchedActions = [''WHEN NOT MATCHED THEN INSERT *''],
      notMatchedBySourceActions = []\<rparr>"
  by (simp add: doc_writer_def doc_configured_def writer_ops)

text \<open>The example of the docstring of \<^verbatim>\<open>generate\<close>.\<close>

lemma generate_doc_writer:
  "generate doc_writer =
     (Inr (''MERGE INTO lh.Sales AS target'' @ newline @
           ''USING {df} AS source'' @ newline @
           ''ON target.id = source.id'' @ newline @
           ''WHEN MATCHED THEN UPDATE SET *'' @ newline @
           ''WHEN NOT MATCHED THEN INSERT *''),
      doc_configured)"
  by (simp add: doc_writer_eq doc_configured_def writer_ops generate_def truthy_def)

subsection \<open>Rendering\<close>

text \<open>
  C1, as stated, fails where a configuration value is set to the empty
  string.  The writer below is reachable through the public methods, its
  target table, source relation and join condition are all set, and one action
  line is recorded; \<^verbatim>\<open>generate\<close> raises the missing-configuration error on it
  and leaves it as it is, because the three values are tested for truthiness.
\<close>

theorem generate_renders_statement_counterexample:
  "reachable empty_source_writer
   \<and> tblName empty_source_writer = ''t''
   \<and> viewName empty_source_writer = Some []
   \<and> condition empty_source_writer = Some ''c''
   \<and> matchedActions empty_source_writer = [''WHEN MATCHED THEN DELETE'']
   \<and> generate empty_source_writer = (Inl MissingConfigurationError, empty_source_writer)"
proof -
  let ?w0 = "MergeIntoWriter_on (MergeIntoWriter_using (MergeIntoWriter_init ''t'') []) ''c''"
  have eq: "empty_source_writer =
              WhenMatched_delete (fst (whenMatched ?w0 None)) (snd (whenMatched ?w0 None))"
    by (simp add: empty_source_writer_def whenMatched_def)
  have "reachable ?w0"
    by (intro reachable.r_on reachable.r_using reachable.r_init)
  moreover have "branch_call ?w0 empty_source_writer"
    unfolding eq by (rule branch_call.matched_delete)
  ultimately have "reachable empty_source_writer"
    by (rule reachable.r_branch)
  moreover have "tblName empty_source_writer = ''t''"
    "viewName empty_source_writer = Some []"
    "condition empty_source_writer = Some ''c''"
    "matchedActions empty_source_writer = [''WHEN MATCHED THEN DELETE'']"
    by (simp_all add: empty_source_writer_def writer_ops truthy_def)
  moreover from this
  have "generate empty_source_writer = (Inl MissingConfigurationError, empty_source_writer)"
    by (intro generate_unconfigured) (simp add: truthy_def)
  ultimately show ?thesis by simp
qed

text \<open>
  C1, amended.  When the target table, the source relation and the join
  condition are all set to a non-empty value and at least one action line is
  recorded, \<^verbatim>\<open>generate\<close> succeeds.  It returns, joined by newlines, the lines
  \<open>MERGE INTO <table> AS target\<close>, \<open>USING <source> AS source\<close>,
  \<open>ON <condition>\<close>, then the matched lines, the not-matched lines and the
  not-matched-by-source lines, each sequence in its recorded order.  The
  writer it leaves has the three sequences empty and the table, source and
  condition as before.  The aliases are \<open>target\<close> and \<open>source\<close> in every
  reachable writer (\<open>reachable_aliases\<close>).
\<close>

theorem generate_renders_statement:
  assumes "targetAs w = ''target''" and "sourceAs w = ''source''"
    and "tblName w \<noteq> []"
    and "viewName w = Some v" and "v \<noteq> []"
    and "condition w = Some c" and "c \<noteq> []"
    and "matchedActions w \<noteq> [] \<or> notMatchedActions w \<noteq> [] \<or> notMatchedBySourceActions w \<noteq> []"
  shows "generate w =
     (Inr (join newline
        ([''MERGE INTO '' @ tblName w @ '' AS target'',
          ''USING '' @ v @ '' AS source'',
          ''ON '' @ c]
         @ matchedActions w @ notMatchedActions w @ notMatchedBySourceActions w)),
      \<lparr>targetAs = ''target'', sourceAs = ''source'', tblName = tblName w,
       viewName = Some v, condition = Some c,
       matchedActions = [], notMatchedActions = [], notMatchedBySourceActions = []\<rparr>)"
  using assms generate_ok [of w v c] by simp

text \<open>
  The example of the docstring of \<^verbatim>\<open>generate\<close>: the rendered text, and the
  writer afterwards, which is the configured writer without actions.
\<close>

theorem generate_renders_statement_witness:
  "generate doc_writer =
     (Inr (''MERGE INTO lh.Sales AS target'' @ newline @
           ''USING {df} AS source'' @ newline @
           ''ON target.id = source.id'' @ newline @
           ''WHEN MATCHED THEN UPDATE SET *'' @ newline @
           ''WHEN NOT MATCHED THEN INSERT *''),
      doc_configured)"
  using generate_renders_statement [of doc_writer "''{df}''" "''target.id = source.id''"]
  by (simp add: doc_writer_eq doc_configured_def writer_ops)

text \<open>
  C2.  \<^verbatim>\<open>generate\<close> raises the missing-configuration error exactly when the
  target table is empty, or the source relation or the join condition is unset
  or empty.  The constructor, \<^verbatim>\<open>using\<close> and \<^verbatim>\<open>on\<close> store the value they
  are given, the empty string included.  These mutators, and the branch
  actions, contain no \<^verbatim>\<open>raise\<close>: they are total functions on writers.
\<close>

theorem generate_MissingConfigurationError:
  "(fst (generate w) = Inl MissingConfigurationError) =
     (tblName w = [] \<or> viewName w = None \<or> viewName w = Some []
        \<or> condition w = None \<or> condition w = Some [])
   \<and> tblName (MergeIntoWriter_init t) = t
   \<and> viewName (MergeIntoWriter_using w v) = Some v
   \<and> condition (MergeIntoWriter_on w c) = Some c
   \<and> tblName (MergeIntoWriter_init []) = []
   \<and> viewName (MergeIntoWriter_using w []) = Some []
   \<and> condition (MergeIntoWriter_on w []) = Some []"
proof -
  have "(fst (generate w) = Inl MissingConfigurationError) =
     (tblName w = [] \<or> viewName w = None \<or> viewName w = Some []
        \<or> condition w = None \<or> condition w = Some [])"
  proof (cases "tblName w = [] \<or> \<not> truthy_opt (viewName w) \<or> \<not> truthy_opt (condition w)")
    case True
    then have "fst (generate w) = Inl MissingConfigurationError"
      by (simp add: generate_unconfigured)
    moreover from True have "tblName w = [] \<or> viewName w = None \<or> viewName w = Some []
        \<or> condition w = None \<or> condition w = Some []"
      by (auto simp: not_truthy_opt)
    ultimately show ?thesis by simp
  next
    case False
    then have cfg: "tblName w \<noteq> []" "truthy_opt (viewName w)" "truthy_opt (condition w)"
      by simp_all
    then have "fst (generate w) \<noteq> Inl MissingConfigurationError"
      using errors_distinct by (simp add: generate_def truthy_def Let_def)
    moreover from False have "\<not> (tblName w = [] \<or> viewName w = None \<or> viewName w = Some []
        \<or> condition w = None \<or> condition w = Some [])"
      by (auto simp: not_truthy_opt)
    ultimately show ?thesis by simp
  qed
  then show ?thesis
    by (simp add: MergeIntoWriter_init_def MergeIntoWriter_using_def MergeIntoWriter_on_def)
qed

text \<open>
  A writer whose source relation was set to the empty string, and the writer
  of the docstring.
\<close>

theorem generate_MissingConfigurationError_witness:
  "fst (generate (MergeIntoWriter_using (MergeIntoWriter_init ''lh.Sales'') [])) =
     Inl MissingConfigurationError
   \<and> fst (generate doc_writer) \<noteq> Inl MissingConfigurationError"
  using generate_MissingConfigurationError
          [of "MergeIntoWriter_using (MergeIntoWriter_init ''lh.Sales'') []"]
        generate_MissingConfigurationError [of doc_writer]
  by (simp add: doc_writer_eq MergeIntoWriter_init_def MergeIntoWriter_using_def)

text \<open>
  C3, as stated, fails: a freshly constructed writer has three empty action
  sequences, and \<^verbatim>\<open>generate\<close> raises the missing-configuration error on it,
  because the configuration is tested first.
\<close>

theorem generate_NoActionsError_counterexample:
  "matchedActions (MergeIntoWriter_init ''lh.Sales'') = []
   \<and> notMatchedActions (MergeIntoWriter_init ''lh.Sales'') = []
   \<and> notMatchedBySourceActions (MergeIntoWriter_init ''lh.Sales'') = []
   \<and> fst (generate (MergeIntoWriter_init ''lh.Sales'')) = Inl MissingConfigurationError
   \<and> fst (generate (MergeIntoWriter_init ''lh.Sales'')) \<noteq> Inl NoActionsError"
  by (simp add: MergeIntoWriter_init_def generate_def
        MissingConfigurationError_def NoActionsError_def)

text \<open>
  C3, amended.  \<^verbatim>\<open>generate\<close> raises the no-actions error exactly when the
  target table, the source relation and the join condition are all set and
  non-empty and the three action sequences are all empty.  After a successful
  \<^verbatim>\<open>generate\<close>, a second one on the writer it left raises the no-actions
  error and leaves that writer as it is; after one more branch call
  \<^verbatim>\<open>generate\<close> succeeds again, and its output starts with the lines of the
  original table, source relation and join condition.
\<close>

theorem generate_NoActionsError:
  "((fst (generate w) = Inl NoActionsError) =
      (tblName w \<noteq> [] \<and> viewName w \<noteq> None \<and> viewName w \<noteq> Some []
         \<and> condition w \<noteq> None \<and> condition w \<noteq> Some []
         \<and> matchedActions w = [] \<and> notMatchedActions w = []
         \<and> notMatchedBySourceActions w = []))
   \<and> (generate w = (Inr s, w') \<longrightarrow> generate w' = (Inl NoActionsError, w'))
   \<and> (generate w = (Inr s, w') \<and> branch_call w' w'' \<longrightarrow>
        (\<exists>v c. viewName w = Some v \<and> condition w = Some c
           \<and> generate w'' =
               (Inr (join newline
                  ([''MERGE INTO '' @ tblName w @ '' AS '' @ targetAs w,
                    ''USING '' @ v @ '' AS '' @ sourceAs w,
                    ''ON '' @ c]
                   @ matchedActions w'' @ notMatchedActions w''
                   @ notMatchedBySourceActions w'')),
                w')))"
proof (intro conjI impI)
  show "(fst (generate w) = Inl NoActionsError) =
     (tblName w \<noteq> [] \<and> viewName w \<noteq> None \<and> viewName w \<noteq> Some []
        \<and> condition w \<noteq> None \<and> condition w \<noteq> Some []
        \<and> matchedActions w = [] \<and> notMatchedActions w = []
        \<and> notMatchedBySourceActions w = [])"
  proof (cases "tblName w = [] \<or> \<not> truthy_opt (viewName w) \<or> \<not> truthy_opt (condition w)")
    case True
    then have "fst (generate w) \<noteq> Inl NoActionsError"
      using errors_distinct by (simp add: generate_unconfigured)
    moreover from True have "tblName w = [] \<or> viewName w = None \<or> viewName w = Some []
        \<or> condition w = None \<or> condition w = Some []"
      by (auto simp: not_truthy_opt)
    ultimately show ?thesis by auto
  next
    case False
    then have cfg: "tblName w \<noteq> []" "truthy_opt (viewName w)" "truthy_opt (condition w)"
      by simp_all
    then have "(fst (generate w) = Inl NoActionsError) =
        (matchedActions w = [] \<and> notMatchedActions w = []
          \<and> notMatchedBySourceActions w = [])"
      by (auto simp: generate_def truthy_def Let_def)
    moreover from False have "tblName w \<noteq> [] \<and> viewName w \<noteq> None \<and> viewName w \<noteq> Some []
        \<and> condition w \<noteq> None \<and> condition w \<noteq> Some []"
      by (auto simp: not_truthy_opt)
    ultimately show ?thesis by auto
  qed
next
  assume g: "generate w = (Inr s, w')"
  note c = generate_Inr_cases [OF g]
  from c show "generate w' = (Inl NoActionsError, w')"
    by (intro generate_no_actions) simp_all
next
  assume "generate w = (Inr s, w') \<and> branch_call w' w''"
  then have g: "generate w = (Inr s, w')" and b: "branch_call w' w''"
    by simp_all
  note c = generate_Inr_cases [OF g]
  from c obtain v cnd where vc: "viewName w = Some v" "v \<noteq> []" "condition w = Some cnd" "cnd \<noteq> []"
    by (auto simp: truthy_opt_iff)
  note f = branch_call_frame [OF b]
  from branch_call_appends [OF b] c
  have acts: "matchedActions w'' \<noteq> [] \<or> notMatchedActions w'' \<noteq> []
                \<or> notMatchedBySourceActions w'' \<noteq> []"
    by auto
  have clr: "w''\<lparr>matchedActions := [], notMatchedActions := [],
                  notMatchedBySourceActions := []\<rparr> = w'"
    using f c by (intro MergeIntoWriter.equality) simp_all
  have "generate w'' =
     (Inr (join newline
        ([''MERGE INTO '' @ tblName w'' @ '' AS '' @ targetAs w'',
          ''USING '' @ v @ '' AS '' @ sourceAs w'',
          ''ON '' @ cnd]
         @ matchedActions w'' @ notMatchedActions w'' @ notMatchedBySourceActions w'')),
      w''\<lparr>matchedActions := [], notMatchedActions := [], notMatchedBySourceActions := []\<rparr>)"
    using f c vc acts by (intro generate_ok) simp_all
  with f c vc clr show "\<exists>v c. viewName w = Some v \<and> condition w = Some c
           \<and> generate w'' =
               (Inr (join newline
                  ([''MERGE INTO '' @ tblName w @ '' AS '' @ targetAs w,
                    ''USING '' @ v @ '' AS '' @ sourceAs w,
                    ''ON '' @ c]
                   @ matchedActions w'' @ notMatchedActions w''
                   @ notMatchedBySourceActions w'')),
                w')"
    by simp
qed

text \<open>
  The writer of the docstring is rendered, rendered again, and rendered a third
  time after a \<^verbatim>\<open>whenMatched("target.qty = 0").delete()\<close>.
\<close>

theorem generate_NoActionsError_witness:
  "generate doc_writer =
     (Inr (''MERGE INTO lh.Sales AS target'' @ newline @
           ''USING {df} AS source'' @ newline @
           ''ON target.id = source.id'' @ newline @
           ''WHEN MATCHED THEN UPDATE SET *'' @ newline @
           ''WHEN NOT MATCHED THEN INSERT *''),
      doc_configured)
   \<and> branch_call doc_configured
        (WhenMatched_delete (fst (whenMatched doc_configured (Some ''target.qty = 0'')))
           (snd (whenMatched doc_configured (Some ''target.qty = 0''))))
   \<and> generate doc_configured = (Inl NoActionsError, doc_configured)
   \<and> generate
        (WhenMatched_delete (fst (whenMatched doc_configured (Some ''target.qty = 0'')))
           (snd (whenMatched doc_configured (Some ''target.qty = 0'')))) =
       (Inr (''MERGE INTO lh.Sales AS target'' @ newline @
             ''USING {df} AS source'' @ newline @
             ''ON target.id = source.id'' @ newline @
             ''WHEN MATCHED AND target.qty = 0 THEN DELETE''),
        doc_configured)"
proof -
  let ?w'' = "WhenMatched_delete (fst (whenMatched doc_configured (Some ''target.qty = 0'')))
                (snd (whenMatched doc_configured (Some ''target.qty = 0'')))"
  note g = generate_doc_writer
  have b: "branch_call doc_configured ?w''"
    by (rule branch_call.matched_delete)
  have fields: "tblName doc_writer = ''lh.Sales''" "targetAs doc_writer = ''target''"
    "sourceAs doc_writer = ''source''" "viewName doc_writer = Some ''{df}''"
    "condition doc_writer = Some ''target.id = source.id''"
    by (simp_all add: doc_writer_eq)
  have acts: "matchedActions ?w'' = [''WHEN MATCHED AND target.qty = 0 THEN DELETE'']"
    "notMatchedActions ?w'' = []" "notMatchedBySourceActions ?w'' = []"
    by (simp_all add: doc_configured_def writer_ops truthy_def)
  from generate_NoActionsError [of doc_writer _ doc_configured ?w''] g b
  have "generate doc_configured = (Inl NoActionsError, doc_configured)"
    and "\<exists>v c. viewName doc_writer = Some v \<and> condition doc_writer = Some c
           \<and> generate ?w'' =
               (Inr (join newline
                  ([''MERGE INTO '' @ tblName doc_writer @ '' AS '' @ targetAs doc_writer,
                    ''USING '' @ v @ '' AS '' @ sourceAs doc_writer,
                    ''ON '' @ c]
                   @ matchedActions ?w'' @ notMatchedActions ?w''
                   @ notMatchedBySourceActions ?w'')),
                doc_configured)"
    by blast+
  with g b show ?thesis by (simp add: fields acts)
qed

text \<open>
  C4.  \<^verbatim>\<open>generate\<close> has exactly three outcomes.  Either the writer is
  configured and has an action: then the complete statement is returned and
  the three action sequences are cleared, all other fields kept.  Or one of
  the two errors is raised, and the writer is, in every field, as it was
  before the call.
\<close>

theorem generate_atomic:
  "(\<exists>v c. tblName w \<noteq> [] \<and> viewName w = Some v \<and> v \<noteq> [] \<and> condition w = Some c \<and> c \<noteq> []
      \<and> (matchedActions w \<noteq> [] \<or> notMatchedActions w \<noteq> []
           \<or> notMatchedBySourceActions w \<noteq> [])
      \<and> generate w =
          (Inr (join newline
             ([''MERGE INTO '' @ tblName w @ '' AS '' @ targetAs w,
               ''USING '' @ v @ '' AS '' @ sourceAs w,
               ''ON '' @ c]
              @ matchedActions w @ notMatchedActions w @ notMatchedBySourceActions w)),
           w\<lparr>matchedActions := [], notMatchedActions := [],
              notMatchedBySourceActions := []\<rparr>))
   \<or> generate w = (Inl MissingConfigurationError, w)
   \<or> generate w = (Inl NoActionsError, w)"
proof (cases "tblName w = [] \<or> \<not> truthy_opt (viewName w) \<or> \<not> truthy_opt (condition w)")
  case True
  then show ?thesis using generate_unconfigured [of w] by blast
next
  case False
  then have cfg: "tblName w \<noteq> []" "truthy_opt (viewName w)" "truthy_opt (condition w)"
    by simp_all
  show ?thesis
  proof (cases "matchedActions w = [] \<and> notMatchedActions w = []
                  \<and> notMatchedBySourceActions w = []")
    case True
    with cfg show ?thesis using generate_no_actions [of w] by blast
  next
    case False
    from cfg obtain v c where vc: "viewName w = Some v" "v \<noteq> []" "condition w = Some c" "c \<noteq> []"
      by (auto simp: truthy_opt_iff)
    have "generate w =
          (Inr (join newline
             ([''MERGE INTO '' @ tblName w @ '' AS '' @ targetAs w,
               ''USING '' @ v @ '' AS '' @ sourceAs w,
               ''ON '' @ c]
              @ matchedActions w @ notMatchedActions w @ notMatchedBySourceActions w)),
           w\<lparr>matchedActions := [], notMatchedActions := [],
              notMatchedBySourceActions := []\<rparr>)"
      using cfg vc False by (intro generate_ok) auto
    with cfg vc False show ?thesis by blast
  qed
qed

text \<open>
  The writer of the docstring is rendered; the configured writer without
  actions fails and is left as it is.
\<close>

theorem generate_atomic_witness:
  "generate doc_writer =
     (Inr (''MERGE INTO lh.Sales AS target'' @ newline @
           ''USING {df} AS source'' @ newline @
           ''ON target.id = source.id'' @ newline @
           ''WHEN MATCHED THEN UPDATE SET *'' @ newline @
           ''WHEN NOT MATCHED THEN INSERT *''),
      doc_writer\<lparr>matchedActions := [], notMatchedActions := []\<rparr>)
   \<and> generate doc_configured = (Inl NoActionsError, doc_configured)"
proof -
  have ok: "fst (generate doc_writer) \<noteq> Inl MissingConfigurationError"
       "fst (generate doc_writer) \<noteq> Inl NoActionsError"
    by (simp_all add: doc_writer_eq generate_def truthy_def)
  have na: "fst (generate doc_configured) = Inl NoActionsError"
    by (simp add: doc_configured_def writer_ops generate_def truthy_def)
  have "generate doc_writer =
     (Inr (''MERGE INTO lh.Sales AS target'' @ newline @
           ''USING {df} AS source'' @ newline @
           ''ON target.id = source.id'' @ newline @
           ''WHEN MATCHED THEN UPDATE SET *'' @ newline @
           ''WHEN NOT MATCHED THEN INSERT *''),
      doc_writer\<lparr>matchedActions := [], notMatchedActions := []\<rparr>)"
    using generate_atomic [of doc_writer] ok by (auto simp: doc_writer_eq)
  moreover have "generate doc_configured = (Inl NoActionsError, doc_configured)"
    using generate_atomic [of doc_configured] na errors_distinct
    by (auto simp: doc_configured_def writer_ops)
  ultimately show ?thesis by simp
qed

subsection \<open>Branch scopes\<close>

text \<open>
  C9.  For each of the three branch kinds, a scope opened with the empty string
  as predicate has the same plain prefix as a scope opened without predicate:
  \<open>WHEN MATCHED\<close>, \<open>WHEN NOT MATCHED\<close>, \<open>WHEN NOT MATCHED BY SOURCE\<close>, with no
  \<open>AND\<close> after it.
\<close>

theorem genWhen_empty_condition:
  "WhenMatched_genWhen (fst (whenMatched w (Some []))) = ''WHEN MATCHED''
   \<and> WhenMatched_genWhen (fst (whenMatched w None)) = ''WHEN MATCHED''
   \<and> WhenNotMatched_genWhen (fst (whenNotMatched w (Some []))) = ''WHEN NOT MATCHED''
   \<and> WhenNotMatched_genWhen (fst (whenNotMatched w None)) = ''WHEN NOT MATCHED''
   \<and> WhenNotMatchedBySource_genWhen (fst (whenNotMatchedBySource w (Some []))) =
       ''WHEN NOT MATCHED BY SOURCE''
   \<and> WhenNotMatchedBySource_genWhen (fst (whenNotMatchedBySource w None)) =
       ''WHEN NOT MATCHED BY SOURCE''"
  by (simp add: whenMatched_def whenNotMatched_def whenNotMatchedBySource_def truthy_def)

text \<open>
  The lines recorded by one action of each kind in a scope opened with the
  empty string.
\<close>

theorem genWhen_empty_condition_witness:
  "matchedActions
     (WhenMatched_delete (fst (whenMatched doc_configured (Some [])))
        (snd (whenMatched doc_configured (Some [])))) = [''WHEN MATCHED THEN DELETE'']
   \<and> notMatchedActions
     (WhenNotMatched_insertAll (fst (whenNotMatched doc_configured (Some [])))
        (snd (whenNotMatched doc_configured (Some [])))) = [''WHEN NOT MATCHED THEN INSERT *'']
   \<and> notMatchedBySourceActions
     (WhenNotMatchedBySource_delete (fst (whenNotMatchedBySource doc_configured (Some [])))
        (snd (whenNotMatchedBySource doc_configured (Some [])))) =
       [''WHEN NOT MATCHED BY SOURCE THEN DELETE'']"
  using genWhen_empty_condition [of doc_configured]
  by (simp add: WhenMatched_delete_def WhenNotMatched_insertAll_def
        WhenNotMatchedBySource_delete_def)
    (simp add: doc_configured_def writer_ops)

text \<open>
  C10.  Opening a scope of any of the three kinds leaves the writer as it is.
  Each of the eight action methods appends one line, the prefix of its scope
  followed by its action text, to the sequence of its own branch kind, and
  leaves the other two sequences, the target table, the source relation, the
  join condition and the aliases as they were.
\<close>

theorem branch_call_frame_conditions:
  "snd (whenMatched w c) = w
   \<and> snd (whenNotMatched w c) = w
   \<and> snd (whenNotMatchedBySource w c) = w
   \<and> appended_matched w (WhenMatched_genWhen m @ '' THEN UPDATE SET *'')
        (WhenMatched_updateAll m w)
   \<and> appended_matched w (WhenMatched_genWhen m @ '' THEN UPDATE SET '' @ e)
        (WhenMatched_updateExpr m e w)
   \<and> appended_matched w (WhenMatched_genWhen m @ '' THEN DELETE'')
        (WhenMatched_delete m w)
   \<and> appended_notMatched w (WhenNotMatched_genWhen n @ '' THEN INSERT *'')
        (WhenNotMatched_insertAll n w)
   \<and> appended_notMatched w (WhenNotMatched_genWhen n @ '' THEN INSERT '' @ e)
        (WhenNotMatched_insertExpr n e w)
   \<and> appended_notMatchedBySource w (WhenNotMatchedBySource_genWhen b @ '' THEN UPDATE SET *'')
        (WhenNotMatchedBySource_updateAll b w)
   \<and> appended_notMatchedBySource w
        (WhenNotMatchedBySource_genWhen b @ '' THEN UPDATE SET '' @ e)
        (WhenNotMatchedBySource_updateExpr b e w)
   \<and> appended_notMatchedBySource w (WhenNotMatchedBySource_genWhen b @ '' THEN DELETE'')
        (WhenNotMatchedBySource_delete b w)"
  by (simp add: writer_ops appended_matched_def appended_notMatched_def
        appended_notMatchedBySource_def)

text \<open>
  A conditional \<^verbatim>\<open>insertExpr\<close> on the writer of the docstring: one line more
  in the not-matched sequence, nothing else changed.
\<close>

theorem branch_call_frame_conditions_witness:
  "WhenNotMatched_insertExpr (fst (whenNotMatched doc_writer (Some ''source.qty > 0'')))
       ''(id) VALUES (source.id)'' (snd (whenNotMatched doc_writer (Some ''source.qty > 0''))) =
     \<lparr>targetAs = ''target'', sourceAs = ''source'', tblName = ''lh.Sales'',
      viewName = Some ''{df}'', condition = Some ''target.id = source.id'',
      matchedActions = [''WHEN MATCHED THEN UPDATE SET *''],
      notMatchedActions = [''WHEN NOT MATCHED THEN INSERT *'',
        ''WHEN NOT MATCHED AND source.qty > 0 THEN INSERT (id) VALUES (source.id)''],
      notMatchedBySourceActions = []\<rparr>"
  using branch_call_frame_conditions [of doc_writer "Some ''source.qty > 0''" _
          "''(id) VALUES (source.id)''" "fst (whenNotMatched doc_writer (Some ''source.qty > 0''))"]
  by (simp add: appended_matched_def appended_notMatched_def appended_notMatchedBySource_def
        doc_writer_eq whenNotMatched_def truthy_def)

end
